theory Spec2Isabelle
  imports Main "HOL-Library.Word"
begin

section \<open>cppzstd: an owning C++ layer over the zstd engine\<close>

text \<open>
  The header \<^verbatim>\<open>cppzstd.h\<close> wraps the C interface of the zstd library: \<^verbatim>\<open>TrainData\<close>,
  \<^verbatim>\<open>CDict\<close>, \<^verbatim>\<open>DDict\<close>, \<^verbatim>\<open>Compress\<close> and \<^verbatim>\<open>Decompress\<close>. The codec itself is not part of
  the repository, so the engine is a parameter of every definition below: a record of the
  C functions the header calls. What the wrapper does is then a function of that record,
  and whatever is proved without a hypothesis on the record holds for every engine.

  Conventions.
  \<^item> \<^verbatim>\<open>std::size_t\<close> and \<^verbatim>\<open>unsigned long long\<close> are 64-bit words and \<^verbatim>\<open>unsigned\<close> is a
    32-bit word (an LP64 platform).
  \<^item> A buffer passed as pointer and size (\<^verbatim>\<open>src, srcSize\<close> or \<^verbatim>\<open>dst, dstCapacity\<close>) is a
    byte list, and the size passed is its length.
  \<^item> A thrown exception is a value \<open>Inl err\<close>. A function that modifies its arguments
    returns them next to the outcome, so that the state left behind by a throw is visible.
  \<^item> Failure of \<^verbatim>\<open>std::vector\<close> to allocate is not modelled.
  \<^item> The overloads of \<^verbatim>\<open>compress\<close> and \<^verbatim>\<open>decompress\<close> that take a dictionary are left out.
\<close>

subsection \<open>Values\<close>

type_synonym byte = "8 word"
type_synonym bytes = "byte list"
type_synonym size_t = "64 word"
type_synonym unsigned = "32 word"

text \<open>A pointer to an engine dictionary (\<^verbatim>\<open>ZSTD_CDict*\<close>, \<^verbatim>\<open>ZSTD_DDict*\<close>); 0 is \<^verbatim>\<open>nullptr\<close>.\<close>

type_synonym handle = nat

definition nullptr :: handle where
  "nullptr = 0"

text \<open>
  The exceptions of the header: \<^verbatim>\<open>ZError\<close> (a \<^verbatim>\<open>std::runtime_error\<close> with a message), its
  subclass \<^verbatim>\<open>ZUnknownSize\<close>, and \<^verbatim>\<open>std::bad_alloc\<close>.
\<close>

datatype error = ZError string | ZUnknownSize string | bad_alloc

text \<open>\<^verbatim>\<open>catch (ZError const&)\<close>: the handler also receives the subclass.\<close>

fun caught_as_ZError :: "error \<Rightarrow> bool" where
  "caught_as_ZError (ZError m) = True"
| "caught_as_ZError (ZUnknownSize m) = True"
| "caught_as_ZError bad_alloc = False"

text \<open>\<^verbatim>\<open>catch (ZUnknownSize const&)\<close>.\<close>

fun caught_as_ZUnknownSize :: "error \<Rightarrow> bool" where
  "caught_as_ZUnknownSize (ZUnknownSize m) = True"
| "caught_as_ZUnknownSize other = False"

subsection \<open>The engine\<close>

text \<open>
  The calls the wrapper makes on contexts, buffers and dictionary handles, in program
  order. The wrapper appends one entry per call; nothing reads the list. An entry holds the
  arguments of the call (a buffer's capacity for an output buffer, its bytes for an input
  buffer); for the two functions that create a dictionary, the pointer returned comes last.
\<close>

datatype event =
    createCCtx_call
  | compressCCtx_call size_t bytes int
  | createDCtx_call
  | decompressDCtx_call size_t bytes
  | trainFromBuffer_call size_t bytes "size_t list" unsigned
  | createCDict_call bytes size_t int handle
  | freeCDict_call handle
  | createDDict_call bytes size_t handle
  | freeDDict_call handle

text \<open>
  The functions and constants of zstd (\<^verbatim>\<open>zstd.h\<close>, and \<^verbatim>\<open>zdict.h\<close> for training) that
  \<^verbatim>\<open>cppzstd.h\<close> uses. \<open>'c\<close> and \<open>'d\<close> are the states of a compression and of a decompression
  context.
  \<^item> A function that writes to an output buffer takes the buffer's capacity and returns
    the bytes it writes, next to its return code; it does not read the buffer.
  \<^item> A function that works on a context takes the context's state and returns the new one.
  \<^item> \<open>ZSTD_createCCtx\<close> and \<open>ZSTD_createDCtx\<close> are \<open>None\<close> when the engine returns
    \<^verbatim>\<open>nullptr\<close>.
  \<^item> The two sentinels of \<open>ZSTD_getFrameContentSize\<close> are macros of \<^verbatim>\<open>zstd.h\<close>; they
    are fields here, as the header is not part of the repository.
  \<^item> \<open>ZDICT_trainFromBuffer\<close> has the parameters \<^verbatim>\<open>zdict.h\<close> declares:
    \<^verbatim>\<open>(void* dictBuffer, size_t dictBufferCapacity, const void* samplesBuffer,
    const size_t* samplesSizes, unsigned nbSamples)\<close>. The sizes are the array that
    \<^verbatim>\<open>samplesSizes\<close> points to, and the number of samples is an \<^verbatim>\<open>unsigned\<close>.
\<close>

record ('c, 'd) engine =
  ZSTD_compressBound :: "size_t \<Rightarrow> size_t"
  ZSTD_isError :: "size_t \<Rightarrow> bool"
  ZSTD_getErrorName :: "size_t \<Rightarrow> string"
  ZSTD_createCCtx :: "'c option"
  ZSTD_compressCCtx :: "'c \<Rightarrow> size_t \<Rightarrow> bytes \<Rightarrow> int \<Rightarrow> size_t \<times> bytes \<times> 'c"
  ZSTD_createDCtx :: "'d option"
  ZSTD_decompressDCtx :: "'d \<Rightarrow> size_t \<Rightarrow> bytes \<Rightarrow> size_t \<times> bytes \<times> 'd"
  ZSTD_getFrameContentSize :: "bytes \<Rightarrow> 64 word"
  ZSTD_CONTENTSIZE_UNKNOWN :: "64 word"
  ZSTD_CONTENTSIZE_ERROR :: "64 word"
  ZDICT_trainFromBuffer :: "size_t \<Rightarrow> bytes \<Rightarrow> size_t list \<Rightarrow> unsigned \<Rightarrow> size_t \<times> bytes"
  ZDICT_isError :: "size_t \<Rightarrow> bool"
  ZDICT_getErrorName :: "size_t \<Rightarrow> string"
  ZSTD_createCDict :: "bytes \<Rightarrow> size_t \<Rightarrow> int \<Rightarrow> handle"
  ZSTD_createDDict :: "bytes \<Rightarrow> size_t \<Rightarrow> handle"
  ZSTD_maxCLevel :: "int"

text \<open>
  What a thread sees besides its own variables: the two \<^verbatim>\<open>thread_local\<close> singletons
  (\<open>None\<close> until the first call constructs them) and the calls made so far.
\<close>

record ('c, 'd) world =
  Compress_mContext :: "'c option"
  Decompress_mContext :: "'d option"
  trace :: "event list"

subsection \<open>Buffers\<close>

text \<open>\<^verbatim>\<open>std::vector<char>::resize(n)\<close>: the first \<open>n\<close> elements, then zeros.\<close>

definition resize :: "bytes \<Rightarrow> nat \<Rightarrow> bytes" where
  "resize v n = take n v @ replicate (n - length v) 0"

text \<open>
  The engine writes \<open>out\<close> at the start of the buffer \<open>buf\<close>. The buffer keeps its length:
  a write past its end is outside the language's semantics and is cut off here.
\<close>

definition poke :: "bytes \<Rightarrow> bytes \<Rightarrow> bytes" where
  "poke buf out = take (length buf) (out @ drop (length out) buf)"

subsection \<open>TrainData\<close>

record TrainData =
  mDictBuffer :: bytes

text \<open>\<^verbatim>\<open>TrainData(std::size_t size=100*1024*1024) : mDictBuffer(size) {}\<close>\<close>

definition TrainData_ctor :: "size_t \<Rightarrow> TrainData" where
  "TrainData_ctor sz = \<lparr>mDictBuffer = replicate (unat sz) 0\<rparr>"

definition TrainData_default :: TrainData where
  "TrainData_default = TrainData_ctor (100 * 1024 * 1024)"

definition TrainData_data :: "TrainData \<Rightarrow> bytes" where
  "TrainData_data td = mDictBuffer td"

definition TrainData_size :: "TrainData \<Rightarrow> size_t" where
  "TrainData_size td = of_nat (length (mDictBuffer td))"

text \<open>
  \<^verbatim>\<open>template <typename SampleType> void train(std::vector<SampleType> const &samples)\<close>.
  \<open>sizeof_SampleType\<close> is \<^verbatim>\<open>sizeof(SampleType)\<close>; \<open>samples\<close> holds the object representation of
  each element, so \<^verbatim>\<open>samples.data()\<close> points to their concatenation.

  The call in the source is
  \<^verbatim>\<open>ZDICT_trainFromBuffer(mDictBuffer.data(), size(), samples.data(), sizes, samples.size())\<close>.
  Two of its arguments do not have the types of the parameters.
  \<^item> The fourth is the object \<^verbatim>\<open>sizes\<close>, a \<^verbatim>\<open>std::vector<std::size_t>\<close>, where the parameter
    is a \<^verbatim>\<open>const size_t*\<close>. No conversion exists, so the call is ill-formed and an
    instantiation of \<^verbatim>\<open>train\<close> is refused by the compiler. A function that does not compile
    has no behaviour to embed: the definition below is the function with \<^verbatim>\<open>sizes.data()\<close> in
    that place, which is what the vector is built for. It is not the source as written.
  \<^item> The fifth is \<^verbatim>\<open>samples.size()\<close>, a \<^verbatim>\<open>std::size_t\<close>, where the parameter is an
    \<^verbatim>\<open>unsigned\<close>. The conversion keeps the low 32 bits.
  The message keeps the two braces of the source's literal.
\<close>

definition train ::
  "('c, 'd) engine \<Rightarrow> size_t \<Rightarrow> ('c, 'd) world \<Rightarrow> TrainData \<Rightarrow> bytes list \<Rightarrow>
     (error + unit) \<times> ('c, 'd) world \<times> TrainData" where
  "train e sizeof_SampleType w this samples =
     (let sizes = replicate (length samples) sizeof_SampleType;
          nb = (ucast (of_nat (length samples) :: size_t) :: unsigned);
          (err, out) = ZDICT_trainFromBuffer e (TrainData_size this) (concat samples) sizes nb;
          w' = w\<lparr>trace := trace w @
                 [trainFromBuffer_call (TrainData_size this) (concat samples) sizes nb]\<rparr>;
          this' = this\<lparr>mDictBuffer := poke (mDictBuffer this) out\<rparr>
      in if ZDICT_isError e err
         then (Inl (ZError (''train error: {}'' @ ZDICT_getErrorName e err)), w', this')
         else (Inr (), w', this'))"

text \<open>
  A caller that trains the same object several times, each time with its own sample type
  and samples, and goes on after a failure (it catches the exception).
\<close>

fun train_all ::
  "('c, 'd) engine \<Rightarrow> ('c, 'd) world \<Rightarrow> TrainData \<Rightarrow> (size_t \<times> bytes list) list \<Rightarrow>
     ('c, 'd) world \<times> TrainData" where
  "train_all e w td [] = (w, td)"
| "train_all e w td ((sz, samples) # rest) =
     (case train e sz w td samples of (outcome, w', td') \<Rightarrow> train_all e w' td' rest)"

subsection \<open>CDict and DDict\<close>

record CDict =
  CDict_mDict :: handle

text \<open>
  \<^verbatim>\<open>CDict(TrainData const &data, int compressionLevel)\<close>. When the constructor throws, no
  object exists and no destructor runs.
\<close>

definition CDict_ctor ::
  "('c, 'd) engine \<Rightarrow> ('c, 'd) world \<Rightarrow> TrainData \<Rightarrow> int \<Rightarrow> (error + CDict) \<times> ('c, 'd) world" where
  "CDict_ctor e w data compressionLevel =
     (let p = ZSTD_createCDict e (TrainData_data data) (TrainData_size data) compressionLevel;
          w' = w\<lparr>trace := trace w @
                 [createCDict_call (TrainData_data data) (TrainData_size data) compressionLevel p]\<rparr>
      in if p = nullptr then (Inl bad_alloc, w') else (Inr \<lparr>CDict_mDict = p\<rparr>, w'))"

text \<open>
  \<^verbatim>\<open>CDict(CDict &&) = default;\<close> The defaulted move constructor moves each member, and
  moving a pointer copies it. The result is the new object and the object moved from, as
  the move leaves it.
\<close>

definition CDict_move_ctor :: "CDict \<Rightarrow> CDict \<times> CDict" where
  "CDict_move_ctor other = (\<lparr>CDict_mDict = CDict_mDict other\<rparr>, other)"

text \<open>
  \<^verbatim>\<open>CDict& operator=(CDict &&) = default;\<close> The result is the object assigned to and the
  object moved from.
\<close>

definition CDict_move_assign :: "CDict \<Rightarrow> CDict \<Rightarrow> CDict \<times> CDict" where
  "CDict_move_assign this other = (this\<lparr>CDict_mDict := CDict_mDict other\<rparr>, other)"

text \<open>\<^verbatim>\<open>~CDict() { ZSTD_freeCDict(mDict); }\<close>\<close>

definition CDict_dtor :: "('c, 'd) world \<Rightarrow> CDict \<Rightarrow> ('c, 'd) world" where
  "CDict_dtor w this = w\<lparr>trace := trace w @ [freeCDict_call (CDict_mDict this)]\<rparr>"

definition maxCompressionLevel :: "('c, 'd) engine \<Rightarrow> int" where
  "maxCompressionLevel e = ZSTD_maxCLevel e"

definition CDict_get :: "CDict \<Rightarrow> handle" where
  "CDict_get this = CDict_mDict this"

record DDict =
  DDict_mDict :: handle

definition DDict_ctor ::
  "('c, 'd) engine \<Rightarrow> ('c, 'd) world \<Rightarrow> TrainData \<Rightarrow> (error + DDict) \<times> ('c, 'd) world" where
  "DDict_ctor e w data =
     (let p = ZSTD_createDDict e (TrainData_data data) (TrainData_size data);
          w' = w\<lparr>trace := trace w @
                 [createDDict_call (TrainData_data data) (TrainData_size data) p]\<rparr>
      in if p = nullptr then (Inl bad_alloc, w') else (Inr \<lparr>DDict_mDict = p\<rparr>, w'))"

definition DDict_move_ctor :: "DDict \<Rightarrow> DDict \<times> DDict" where
  "DDict_move_ctor other = (\<lparr>DDict_mDict = DDict_mDict other\<rparr>, other)"

definition DDict_move_assign :: "DDict \<Rightarrow> DDict \<Rightarrow> DDict \<times> DDict" where
  "DDict_move_assign this other = (this\<lparr>DDict_mDict := DDict_mDict other\<rparr>, other)"

definition DDict_dtor :: "('c, 'd) world \<Rightarrow> DDict \<Rightarrow> ('c, 'd) world" where
  "DDict_dtor w this = w\<lparr>trace := trace w @ [freeDDict_call (DDict_mDict this)]\<rparr>"

definition DDict_get :: "DDict \<Rightarrow> handle" where
  "DDict_get this = DDict_mDict this"

text \<open>
  Three blocks of client code, each run to the end of its scope, where the destructors run
  in the reverse order of the declarations.
  \<^verbatim>\<open>{ CDict a(data, level); }\<close>
  \<^verbatim>\<open>{ CDict a(data, level); CDict b(std::move(a)); }\<close>
  \<^verbatim>\<open>{ CDict a(data1, level1); CDict b(data2, level2); a = std::move(b); }\<close>
  In the third, a constructor of \<^verbatim>\<open>b\<close> that throws leaves \<^verbatim>\<open>a\<close> to be destroyed.
\<close>

definition CDict_scope ::
  "('c, 'd) engine \<Rightarrow> ('c, 'd) world \<Rightarrow> TrainData \<Rightarrow> int \<Rightarrow> ('c, 'd) world" where
  "CDict_scope e w data level =
     (case CDict_ctor e w data level of
        (Inl err, w1) \<Rightarrow> w1
      | (Inr a, w1) \<Rightarrow> CDict_dtor w1 a)"

definition CDict_scope_move_ctor ::
  "('c, 'd) engine \<Rightarrow> ('c, 'd) world \<Rightarrow> TrainData \<Rightarrow> int \<Rightarrow> ('c, 'd) world" where
  "CDict_scope_move_ctor e w data level =
     (case CDict_ctor e w data level of
        (Inl err, w1) \<Rightarrow> w1
      | (Inr a, w1) \<Rightarrow>
          (case CDict_move_ctor a of (b, a') \<Rightarrow> CDict_dtor (CDict_dtor w1 b) a'))"

definition CDict_scope_move_assign ::
  "('c, 'd) engine \<Rightarrow> ('c, 'd) world \<Rightarrow> TrainData \<Rightarrow> int \<Rightarrow> TrainData \<Rightarrow> int \<Rightarrow> ('c, 'd) world" where
  "CDict_scope_move_assign e w data1 level1 data2 level2 =
     (case CDict_ctor e w data1 level1 of
        (Inl err, w1) \<Rightarrow> w1
      | (Inr a, w1) \<Rightarrow>
          (case CDict_ctor e w1 data2 level2 of
             (Inl err, w2) \<Rightarrow> CDict_dtor w2 a
           | (Inr b, w2) \<Rightarrow>
               (case CDict_move_assign a b of (a', b') \<Rightarrow> CDict_dtor (CDict_dtor w2 b') a')))"

text \<open>\<^verbatim>\<open>{ DDict a(data); DDict b(std::move(a)); }\<close>\<close>

definition DDict_scope_move_ctor ::
  "('c, 'd) engine \<Rightarrow> ('c, 'd) world \<Rightarrow> TrainData \<Rightarrow> ('c, 'd) world" where
  "DDict_scope_move_ctor e w data =
     (case DDict_ctor e w data of
        (Inl err, w1) \<Rightarrow> w1
      | (Inr a, w1) \<Rightarrow>
          (case DDict_move_ctor a of (b, a') \<Rightarrow> DDict_dtor (DDict_dtor w1 b) a'))"

subsection \<open>Compress\<close>

text \<open>\<^verbatim>\<open>static std::size_t compressbound(std::size_t srcSize)\<close>\<close>

definition compressbound :: "('c, 'd) engine \<Rightarrow> size_t \<Rightarrow> size_t" where
  "compressbound e srcSize = ZSTD_compressBound e srcSize"

text \<open>
  \<^verbatim>\<open>instance()\<close> returns the thread's \<^verbatim>\<open>Compress\<close> object and constructs it on the first call;
  the constructor throws \<^verbatim>\<open>std::bad_alloc\<close> when \<^verbatim>\<open>ZSTD_createCCtx\<close> returns \<^verbatim>\<open>nullptr\<close>, and
  the next call tries again. The result is the context \<^verbatim>\<open>instance().mContext\<close>.
\<close>

definition Compress_instance ::
  "('c, 'd) engine \<Rightarrow> ('c, 'd) world \<Rightarrow> (error + 'c) \<times> ('c, 'd) world" where
  "Compress_instance e w =
     (case Compress_mContext w of
        Some c \<Rightarrow> (Inr c, w)
      | None \<Rightarrow>
          (case ZSTD_createCCtx e of
             None \<Rightarrow> (Inl bad_alloc, w\<lparr>trace := trace w @ [createCCtx_call]\<rparr>)
           | Some c \<Rightarrow>
               (Inr c, w\<lparr>Compress_mContext := Some c, trace := trace w @ [createCCtx_call]\<rparr>)))"

text \<open>
  \<^verbatim>\<open>static void compress(std::vector<char> &dst, const void* src, size_t srcSize,
  int compressionLevel)\<close>. The result is the outcome, the world and \<^verbatim>\<open>dst\<close> as the call leaves
  them.
\<close>

definition compress_vec ::
  "('c, 'd) engine \<Rightarrow> ('c, 'd) world \<Rightarrow> bytes \<Rightarrow> bytes \<Rightarrow> int \<Rightarrow>
     (error + unit) \<times> ('c, 'd) world \<times> bytes" where
  "compress_vec e w dst src compressionLevel =
     (let dst1 = resize dst (unat (compressbound e (of_nat (length src)))) in
      case Compress_instance e w of
        (Inl err, w1) \<Rightarrow> (Inl err, w1, dst1)
      | (Inr c, w1) \<Rightarrow>
          (case ZSTD_compressCCtx e c (of_nat (length dst1)) src compressionLevel of
             (res, out, c') \<Rightarrow>
               let w2 = w1\<lparr>Compress_mContext := Some c',
                          trace := trace w1 @
                            [compressCCtx_call (of_nat (length dst1)) src compressionLevel]\<rparr>;
                   dst2 = poke dst1 out
               in if ZSTD_isError e res
                  then (Inl (ZError (''compress error: '' @ ZSTD_getErrorName e res)), w2, dst2)
                  else (Inr (), w2, resize dst2 (unat res))))"


subsection \<open>Decompress\<close>

definition Decompress_instance ::
  "('c, 'd) engine \<Rightarrow> ('c, 'd) world \<Rightarrow> (error + 'd) \<times> ('c, 'd) world" where
  "Decompress_instance e w =
     (case Decompress_mContext w of
        Some d \<Rightarrow> (Inr d, w)
      | None \<Rightarrow>
          (case ZSTD_createDCtx e of
             None \<Rightarrow> (Inl bad_alloc, w\<lparr>trace := trace w @ [createDCtx_call]\<rparr>)
           | Some d \<Rightarrow>
               (Inr d, w\<lparr>Decompress_mContext := Some d, trace := trace w @ [createDCtx_call]\<rparr>)))"

text \<open>
  \<^verbatim>\<open>static std::size_t frameContentSize(const void *src, size_t srcSize)\<close>. It uses no
  context and changes nothing.
\<close>

definition frameContentSize :: "('c, 'd) engine \<Rightarrow> bytes \<Rightarrow> error + size_t" where
  "frameContentSize e src =
     (let size' = ZSTD_getFrameContentSize e src in
      if size' = ZSTD_CONTENTSIZE_UNKNOWN e then Inl (ZUnknownSize ''unknown size'')
      else if size' = ZSTD_CONTENTSIZE_ERROR e then Inl (ZError ''cannot determine size'')
      else Inr size')"

text \<open>
  \<^verbatim>\<open>static std::size_t decompress(void* dst, size_t dstCapacity, const void* src,
  size_t srcSize)\<close>. The message of its error starts with "compress error", as in the
  source.
\<close>

definition decompress ::
  "('c, 'd) engine \<Rightarrow> ('c, 'd) world \<Rightarrow> bytes \<Rightarrow> bytes \<Rightarrow>
     (error + size_t) \<times> ('c, 'd) world \<times> bytes" where
  "decompress e w dst src =
     (case Decompress_instance e w of
        (Inl err, w1) \<Rightarrow> (Inl err, w1, dst)
      | (Inr d, w1) \<Rightarrow>
          (case ZSTD_decompressDCtx e d (of_nat (length dst)) src of
             (res, out, d') \<Rightarrow>
               let w2 = w1\<lparr>Decompress_mContext := Some d',
                          trace := trace w1 @ [decompressDCtx_call (of_nat (length dst)) src]\<rparr>;
                   dst2 = poke dst out
               in if ZSTD_isError e res
                  then (Inl (ZError (''compress error: '' @ ZSTD_getErrorName e res)), w2, dst2)
                  else (Inr res, w2, dst2)))"

subsection \<open>What the wrapper expects of the engine\<close>

text \<open>
  Three properties of an engine, as the documentation of zstd states them for
  \<^verbatim>\<open>ZSTD_compressCCtx\<close>, \<^verbatim>\<open>ZSTD_decompressDCtx\<close> and \<^verbatim>\<open>ZSTD_getFrameContentSize\<close>. None is
  proved of zstd here: a theorem that needs one names it as a hypothesis.

  A compression that succeeds returns the number of bytes it wrote, and that is no more
  than the capacity it was given.
\<close>

definition compress_contract :: "('c, 'd) engine \<Rightarrow> bool" where
  "compress_contract e =
     (\<forall>c cap src lvl.
        case ZSTD_compressCCtx e c cap src lvl of
          (res, out, c') \<Rightarrow>
            \<not> ZSTD_isError e res \<longrightarrow> unat res = length out \<and> length out \<le> unat cap)"

text \<open>
  The frame written by a compression that succeeds decompresses, in whatever state the
  decompression context is and into any capacity that holds the source, to the source.
\<close>

definition roundtrip_contract :: "('c, 'd) engine \<Rightarrow> bool" where
  "roundtrip_contract e =
     (\<forall>c cap src lvl d dcap.
        case ZSTD_compressCCtx e c cap src lvl of
          (res, frame, c') \<Rightarrow>
            \<not> ZSTD_isError e res \<longrightarrow> length src \<le> unat dcap \<longrightarrow>
              (case ZSTD_decompressDCtx e d dcap frame of
                 (n, out, d') \<Rightarrow> \<not> ZSTD_isError e n \<and> unat n = length src \<and> out = src))"

text \<open>
  The content size read from the frame written by a compression that succeeds is the
  sentinel for "unknown" or the size of the source, and then not the sentinel for "error".
\<close>

definition frame_size_contract :: "('c, 'd) engine \<Rightarrow> bool" where
  "frame_size_contract e =
     (\<forall>c cap src lvl.
        case ZSTD_compressCCtx e c cap src lvl of
          (res, frame, c') \<Rightarrow>
            \<not> ZSTD_isError e res \<longrightarrow>
              ZSTD_getFrameContentSize e frame = ZSTD_CONTENTSIZE_UNKNOWN e
              \<or> (ZSTD_getFrameContentSize e frame = of_nat (length src)
                  \<and> ZSTD_getFrameContentSize e frame \<noteq> ZSTD_CONTENTSIZE_ERROR e))"

subsection \<open>A small engine to run the wrapper on\<close>

text \<open>
  An engine that stores instead of compressing, used where a theorem is applied to a
  concrete input. A frame is one header byte and the payload: the header is the payload's
  length, or 255 when the frame does not declare it. Sources of 255 bytes or more are
  refused. Error codes are the negated error numbers, as \<^verbatim>\<open>size_t\<close>; the two sentinels have
  the values \<^verbatim>\<open>zstd.h\<close> gives them, \<^verbatim>\<open>0ULL - 1\<close> and \<^verbatim>\<open>0ULL - 2\<close>. Its contexts have no state,
  and the pointer to a dictionary is one more than the dictionary's length.
\<close>

definition stored_isError :: "size_t \<Rightarrow> bool" where
  "stored_isError code = (- 120 < code)"

definition stored_getErrorName :: "size_t \<Rightarrow> string" where
  "stored_getErrorName code =
     (if code = - 20 then ''Data corruption detected''
      else if code = - 70 then ''Destination buffer is too small''
      else if code = - 72 then ''Src size is incorrect''
      else ''Unspecified error code'')"

definition stored_compressCCtx :: "unit \<Rightarrow> size_t \<Rightarrow> bytes \<Rightarrow> int \<Rightarrow> size_t \<times> bytes \<times> unit" where
  "stored_compressCCtx c cap src lvl =
     (if 255 \<le> length src then (- 72, [], c)
      else if unat cap < Suc (length src) then (- 70, [], c)
      else (of_nat (length src) + 1, of_nat (length src) # src, c))"

definition stored_decompressDCtx :: "unit \<Rightarrow> size_t \<Rightarrow> bytes \<Rightarrow> size_t \<times> bytes \<times> unit" where
  "stored_decompressDCtx d cap frame =
     (case frame of
        [] \<Rightarrow> (- 72, [], d)
      | h # body \<Rightarrow>
          if h \<noteq> 255 \<and> unat h \<noteq> length body then (- 20, [], d)
          else if unat cap < length body then (- 70, [], d)
          else (of_nat (length body), body, d))"

definition stored_getFrameContentSize :: "bytes \<Rightarrow> 64 word" where
  "stored_getFrameContentSize frame =
     (case frame of
        [] \<Rightarrow> - 2
      | h # body \<Rightarrow> if h = 255 then - 1 else of_nat (unat h))"

definition stored_trainFromBuffer ::
  "size_t \<Rightarrow> bytes \<Rightarrow> size_t list \<Rightarrow> unsigned \<Rightarrow> size_t \<times> bytes" where
  "stored_trainFromBuffer cap samplesBuffer samplesSizes nbSamples =
     (if nbSamples = 0 then (- 72, [])
      else (of_nat (length (take (unat cap) samplesBuffer)), take (unat cap) samplesBuffer))"

definition stored_engine :: "(unit, unit) engine" where
  "stored_engine =
     \<lparr>ZSTD_compressBound = (\<lambda>srcSize. srcSize + 1),
      ZSTD_isError = stored_isError,
      ZSTD_getErrorName = stored_getErrorName,
      ZSTD_createCCtx = Some (),
      ZSTD_compressCCtx = stored_compressCCtx,
      ZSTD_createDCtx = Some (),
      ZSTD_decompressDCtx = stored_decompressDCtx,
      ZSTD_getFrameContentSize = stored_getFrameContentSize,
      ZSTD_CONTENTSIZE_UNKNOWN = - 1,
      ZSTD_CONTENTSIZE_ERROR = - 2,
      ZDICT_trainFromBuffer = stored_trainFromBuffer,
      ZDICT_isError = stored_isError,
      ZDICT_getErrorName = stored_getErrorName,
      ZSTD_createCDict = (\<lambda>dict dictSize lvl. Suc (length dict)),
      ZSTD_createDDict = (\<lambda>dict dictSize. Suc (length dict)),
      ZSTD_maxCLevel = 22\<rparr>"



text \<open>A thread that has made no call yet.\<close>

definition fresh_world :: "(unit, unit) world" where
  "fresh_world = \<lparr>Compress_mContext = None, Decompress_mContext = None, trace = []\<rparr>"

section \<open>Buffer lemmas\<close>

lemma length_resize: "length (resize v n) = n"
  by (simp add: resize_def)

lemma length_poke: "length (poke buf out) = length buf"
  by (simp add: poke_def)

lemma poke_prefix: "length out \<le> length buf \<Longrightarrow> take (length out) (poke buf out) = out"
  by (simp add: poke_def)

lemma resize_poke: "length out \<le> length buf \<Longrightarrow> resize (poke buf out) (length out) = out"
  by (simp add: resize_def poke_def)

lemma replicate_3: "replicate 3 x = [x, x, x]"
  by (simp add: eval_nat_numeral)

lemma replicate_5: "replicate 5 x = [x, x, x, x, x]"
  by (simp add: eval_nat_numeral)

section \<open>TrainData keeps its size\<close>

lemma TrainData_size_ctor: "TrainData_size (TrainData_ctor c) = c"
  by (simp add: TrainData_size_def TrainData_ctor_def)

lemma train_size:
  "train e sz w td samples = (outcome, w', td') \<Longrightarrow> TrainData_size td' = TrainData_size td"
  by (auto simp: train_def Let_def TrainData_size_def length_poke split: prod.splits if_splits)

lemma train_all_size:
  "TrainData_size (snd (train_all e w td calls)) = TrainData_size td"
proof (induction calls arbitrary: w td)
  case Nil
  show ?case by simp
next
  case (Cons call rest)
  obtain sz samples where call: "call = (sz, samples)"
    by (cases call)
  obtain outcome w' td' where step: "train e sz w td samples = (outcome, w', td')"
    by (cases "train e sz w td samples")
  have "TrainData_size (snd (train_all e w' td' rest)) = TrainData_size td'"
    by (rule Cons.IH)
  with train_size [OF step] show ?case
    by (simp add: call step)
qed

text \<open>
  C7. A \<^verbatim>\<open>TrainData\<close> constructed with capacity \<open>c\<close> reports \<open>size() = c\<close> right after
  construction and after any sequence of \<^verbatim>\<open>train\<close> calls, whether they succeed or throw;
  the default capacity is 100 MiB, that is 104857600 bytes.
\<close>

theorem TrainData_size_fixed:
  "TrainData_size (TrainData_ctor c) = c
   \<and> TrainData_size (snd (train_all e w (TrainData_ctor c) calls)) = c
   \<and> TrainData_size TrainData_default = 104857600
   \<and> TrainData_size (snd (train_all e w TrainData_default calls)) = 104857600"
  by (simp add: train_all_size TrainData_size_ctor TrainData_default_def)

section \<open>The small engine keeps the three properties\<close>

lemma stored_isError_codes:
  "stored_isError (- 20)" "stored_isError (- 70)" "stored_isError (- 72)"
  by (simp_all add: stored_isError_def)

lemma unat_of_nat_size_t: "n < 256 \<Longrightarrow> unat (of_nat n :: size_t) = n"
  by (simp add: unat_of_nat)

lemma unat_of_nat_byte: "n < 256 \<Longrightarrow> unat (of_nat n :: byte) = n"
  by (simp add: unat_of_nat)

lemma unat_stored_size: "n < 255 \<Longrightarrow> unat (of_nat n + 1 :: size_t) = Suc n"
  by (simp add: unat_word_ariths unat_of_nat)

lemma stored_header_not_255: "n < 255 \<Longrightarrow> (of_nat n :: byte) \<noteq> 255"
  using unat_of_nat_byte [of n] by auto

lemma stored_compressCCtx_ok:
  assumes "stored_compressCCtx c cap src lvl = (res, out, c')" and "\<not> stored_isError res"
  shows "length src < 255 \<and> Suc (length src) \<le> unat cap
         \<and> res = of_nat (length src) + 1 \<and> out = of_nat (length src) # src"
  using assms
  by (auto simp: stored_compressCCtx_def stored_isError_codes split: if_splits)

lemma stored_compress_contract: "compress_contract stored_engine"
  unfolding compress_contract_def
  by (auto simp: stored_engine_def unat_stored_size dest!: stored_compressCCtx_ok)

lemma stored_not_isError_small: "n < 256 \<Longrightarrow> \<not> stored_isError (of_nat n)"
  unfolding stored_isError_def
  by (simp add: word_less_nat_alt unat_of_nat)

lemma stored_decompress_frame:
  assumes "length src < 255" and "length src \<le> unat dcap"
  shows "stored_decompressDCtx d dcap (of_nat (length src) # src) = (of_nat (length src), src, d)"
  using assms by (simp add: stored_decompressDCtx_def unat_of_nat_byte)

lemma stored_roundtrip_contract: "roundtrip_contract stored_engine"
  unfolding roundtrip_contract_def
  by (auto simp: stored_engine_def stored_decompress_frame stored_not_isError_small
      unat_of_nat_size_t dest!: stored_compressCCtx_ok)

lemma stored_size_not_sentinel: "n < 256 \<Longrightarrow> (of_nat n :: size_t) \<noteq> - 2"
  using unat_of_nat_size_t [of n] by auto

lemma stored_frame_size_contract: "frame_size_contract stored_engine"
  unfolding frame_size_contract_def
  by (auto simp: stored_engine_def stored_getFrameContentSize_def stored_header_not_255
      unat_of_nat_byte stored_size_not_sentinel dest!: stored_compressCCtx_ok)


section \<open>Using the three properties\<close>

lemma compress_contractD:
  assumes "compress_contract e" and "ZSTD_compressCCtx e c cap src lvl = (res, out, c')"
    and "\<not> ZSTD_isError e res"
  shows "unat res = length out" and "length out \<le> unat cap"
proof -
  from assms(1) have "case ZSTD_compressCCtx e c cap src lvl of
      (res, out, c') \<Rightarrow> \<not> ZSTD_isError e res \<longrightarrow> unat res = length out \<and> length out \<le> unat cap"
    unfolding compress_contract_def by (elim allE)
  with assms(2,3) show "unat res = length out" and "length out \<le> unat cap"
    by simp_all
qed

lemma roundtrip_contractD:
  assumes "roundtrip_contract e" and "ZSTD_compressCCtx e c cap src lvl = (res, frame, c')"
    and "\<not> ZSTD_isError e res" and "length src \<le> unat dcap"
    and "ZSTD_decompressDCtx e d dcap frame = (n, out, d')"
  shows "\<not> ZSTD_isError e n \<and> unat n = length src \<and> out = src"
proof -
  from assms(1) have "case ZSTD_compressCCtx e c cap src lvl of
      (res, frame, c') \<Rightarrow>
        \<not> ZSTD_isError e res \<longrightarrow> length src \<le> unat dcap \<longrightarrow>
          (case ZSTD_decompressDCtx e d dcap frame of
             (n, out, d') \<Rightarrow> \<not> ZSTD_isError e n \<and> unat n = length src \<and> out = src)"
    unfolding roundtrip_contract_def by (elim allE)
  with assms(2-5) show ?thesis
    by simp
qed

lemma frame_size_contractD:
  assumes "frame_size_contract e" and "ZSTD_compressCCtx e c cap src lvl = (res, frame, c')"
    and "\<not> ZSTD_isError e res"
  shows "ZSTD_getFrameContentSize e frame = ZSTD_CONTENTSIZE_UNKNOWN e
         \<or> (ZSTD_getFrameContentSize e frame = of_nat (length src)
             \<and> ZSTD_getFrameContentSize e frame \<noteq> ZSTD_CONTENTSIZE_ERROR e)"
proof -
  from assms(1) have "case ZSTD_compressCCtx e c cap src lvl of
      (res, frame, c') \<Rightarrow>
        \<not> ZSTD_isError e res \<longrightarrow>
          ZSTD_getFrameContentSize e frame = ZSTD_CONTENTSIZE_UNKNOWN e
          \<or> (ZSTD_getFrameContentSize e frame = of_nat (length src)
              \<and> ZSTD_getFrameContentSize e frame \<noteq> ZSTD_CONTENTSIZE_ERROR e)"
    unfolding frame_size_contract_def by (elim allE)
  with assms(2,3) show ?thesis
    by simp
qed

section \<open>The vector overload of compress\<close>

lemma Compress_instance_trace:
  "Compress_instance e w = (r, w1) \<Longrightarrow> Decompress_mContext w1 = Decompress_mContext w"
  by (auto simp: Compress_instance_def split: option.splits)

lemma compress_vec_run:
  assumes inst: "Compress_instance e w = (Inr c, w1)"
    and call: "ZSTD_compressCCtx e c (compressbound e (of_nat (length src))) src lvl = (res, out, c')"
  shows "compress_vec e w dst src lvl =
           (if ZSTD_isError e res
            then Inl (ZError (''compress error: '' @ ZSTD_getErrorName e res)) else Inr (),
            w1\<lparr>Compress_mContext := Some c',
               trace := trace w1 @ [compressCCtx_call (compressbound e (of_nat (length src))) src lvl]\<rparr>,
            if ZSTD_isError e res
            then poke (resize dst (unat (compressbound e (of_nat (length src))))) out
            else resize (poke (resize dst (unat (compressbound e (of_nat (length src))))) out) (unat res))"
  using inst call by (simp add: compress_vec_def Let_def length_resize)

lemma compress_vec_cases:
  assumes "compress_vec e w dst src lvl = (r, w', dst')"
  obtains (no_context) w1 where "Compress_instance e w = (Inl bad_alloc, w1)" "r = Inl bad_alloc"
      "dst' = resize dst (unat (compressbound e (of_nat (length src))))"
  | (called) c w1 res out c' where "Compress_instance e w = (Inr c, w1)"
      "ZSTD_compressCCtx e c (compressbound e (of_nat (length src))) src lvl = (res, out, c')"
proof (cases "Compress_instance e w")
  case (Pair a w1)
  show ?thesis
  proof (cases a)
    case (Inl err)
    with Pair have "err = bad_alloc"
      by (auto simp: Compress_instance_def split: option.splits)
    with Pair Inl assms show ?thesis
      by (intro no_context [of w1]) (auto simp: compress_vec_def Let_def)
  next
    case (Inr c)
    obtain res out c' where
      "ZSTD_compressCCtx e c (compressbound e (of_nat (length src))) src lvl = (res, out, c')"
      by (cases "ZSTD_compressCCtx e c (compressbound e (of_nat (length src))) src lvl")
    with Pair Inr show ?thesis
      by (intro called [of c w1 res out c']) auto
  qed
qed

text \<open>
  C3. Once the thread's context is there, the vector overload has resized \<open>dst\<close> to
  \<open>compressbound (srcSize)\<close>, calls \<open>ZSTD_compressCCtx\<close> once, with that capacity, the source
  and the level, and, when the engine reports no error, resizes \<open>dst\<close> to the number the
  engine returned: the vector handed back has exactly that length.
\<close>

theorem compress_vec_steps:
  assumes "Compress_instance e w = (Inr c, w1)"
    and "ZSTD_compressCCtx e c (compressbound e (of_nat (length src))) src lvl = (res, out, c')"
    and "\<not> ZSTD_isError e res"
  shows "compress_vec e w dst src lvl =
           (Inr (),
            w1\<lparr>Compress_mContext := Some c',
               trace := trace w1 @
                 [compressCCtx_call (compressbound e (of_nat (length src))) src lvl]\<rparr>,
            resize (poke (resize dst (unat (compressbound e (of_nat (length src))))) out) (unat res))
         \<and> length (resize (poke (resize dst (unat (compressbound e (of_nat (length src))))) out)
                     (unat res)) = unat res"
  using assms by (simp add: compress_vec_run length_resize)

text \<open>
  C9. When the vector overload throws, \<open>dst\<close> is not put back: whatever its size was before
  the call, it now has \<open>compressbound (srcSize)\<close> elements. Nothing is said about what they
  hold.
\<close>

theorem compress_vec_failure_keeps_bound:
  assumes "compress_vec e w dst src lvl = (Inl err, w', dst')"
  shows "length dst' = unat (compressbound e (of_nat (length src)))"
  using assms
proof (cases rule: compress_vec_cases)
  case (no_context w1)
  then show ?thesis by (simp add: length_resize)
next
  case (called c w1 res out c')
  with assms show ?thesis
    by (auto simp: compress_vec_run length_poke length_resize split: if_splits)
qed

lemma compress_vec_success:
  assumes ok: "compress_contract e" and run: "compress_vec e w dst P L = (Inr (), w', frame)"
  obtains c w1 res c' where "Compress_instance e w = (Inr c, w1)"
    "ZSTD_compressCCtx e c (compressbound e (of_nat (length P))) P L = (res, frame, c')"
    "\<not> ZSTD_isError e res" "unat res = length frame"
    "length frame \<le> unat (compressbound e (of_nat (length P)))"
  using run
proof (cases rule: compress_vec_cases)
  case (no_context w1)
  then show ?thesis by simp
next
  case (called c w1 res out c')
  from run called have noerr: "\<not> ZSTD_isError e res"
    by (auto simp: compress_vec_run split: if_splits)
  from ok called(2) noerr have len: "unat res = length out"
    "length out \<le> unat (compressbound e (of_nat (length P)))"
    by (rule compress_contractD)+
  from run called noerr have "frame = resize (poke (resize dst (unat (compressbound e (of_nat (length P))))) out) (unat res)"
    by (simp add: compress_vec_run)
  with len have "frame = out"
    by (simp add: resize_poke length_resize)
  with called noerr len show ?thesis
    by (intro that [of c w1 res c']) auto
qed

text \<open>
  C2. With an engine that reports no more bytes than the capacity it was given, the vector
  the overload hands back is no longer than \<open>compressbound\<close> of the payload's length.
\<close>

theorem compress_vec_within_bound:
  assumes "compress_contract e" and "compress_vec e w dst P L = (Inr (), w', out)"
  shows "length out \<le> unat (compressbound e (of_nat (length P)))"
  using assms by (rule compress_vec_success)


section \<open>Compressing, then decompressing\<close>

lemma decompress_run:
  assumes inst: "Decompress_instance e w = (Inr d, w1)"
    and call: "ZSTD_decompressDCtx e d (of_nat (length dst)) src = (res, out, d')"
  shows "decompress e w dst src =
           (if ZSTD_isError e res
            then Inl (ZError (''compress error: '' @ ZSTD_getErrorName e res)) else Inr res,
            w1\<lparr>Decompress_mContext := Some d',
               trace := trace w1 @ [decompressDCtx_call (of_nat (length dst)) src]\<rparr>,
            poke dst out)"
  using inst call by (simp add: decompress_def Let_def)

text \<open>
  C1. With an engine that keeps its return contract and whose decompression inverts its
  compression, the frame the vector overload hands back for a payload \<open>P\<close> at a level \<open>L\<close>
  decompresses to \<open>P\<close>: given a destination of at least \<open>length P\<close> bytes and a thread whose
  decompression context is there, \<open>decompress\<close> returns \<open>length P\<close> and the destination
  starts with \<open>P\<close>.
\<close>

theorem compress_decompress_roundtrip:
  assumes "compress_contract e" and "roundtrip_contract e"
    and "compress_vec e w dst0 P L = (Inr (), w1, frame)"
    and "Decompress_instance e w2 = (Inr d, w3)"
    and "length P \<le> length dst" and "length dst < 2 ^ 64"
  shows "\<exists>n w4 dst'. decompress e w2 dst frame = (Inr n, w4, dst')
           \<and> unat n = length P \<and> take (unat n) dst' = P"
proof -
  from assms(1,3) obtain c w1' res c' where
    comp: "ZSTD_compressCCtx e c (compressbound e (of_nat (length P))) P L = (res, frame, c')"
    and noerr: "\<not> ZSTD_isError e res"
    by (rule compress_vec_success)
  obtain n out d' where dec: "ZSTD_decompressDCtx e d (of_nat (length dst)) frame = (n, out, d')"
    by (cases "ZSTD_decompressDCtx e d (of_nat (length dst)) frame")
  from assms(6) have cap: "unat (of_nat (length dst) :: size_t) = length dst"
    by (simp add: unat_of_nat)
  with assms(5) have fits: "length P \<le> unat (of_nat (length dst) :: size_t)"
    by simp
  from roundtrip_contractD [OF assms(2) comp noerr fits dec]
  have inv: "\<not> ZSTD_isError e n" "unat n = length P" "out = P"
    by simp_all
  from assms(5) inv have "take (unat n) (poke dst out) = P"
    by (simp add: poke_prefix)
  with inv decompress_run [OF assms(4) dec] show ?thesis
    by simp
qed

section \<open>The content size of a frame\<close>

text \<open>
  C8. With an engine that writes the source's size into the frames that declare one, when
  the frame the vector overload hands back for \<open>P\<close> declares a content size,
  \<open>frameContentSize\<close> of that frame returns the length of \<open>P\<close>.
\<close>

theorem frameContentSize_of_compressed:
  assumes "compress_contract e" and "frame_size_contract e"
    and "compress_vec e w dst P L = (Inr (), w', frame)"
    and "ZSTD_getFrameContentSize e frame \<noteq> ZSTD_CONTENTSIZE_UNKNOWN e"
  shows "frameContentSize e frame = Inr (of_nat (length P))"
proof -
  from assms(1,3) obtain c w1 res c' where
    comp: "ZSTD_compressCCtx e c (compressbound e (of_nat (length P))) P L = (res, frame, c')"
    and noerr: "\<not> ZSTD_isError e res"
    by (rule compress_vec_success)
  from frame_size_contractD [OF assms(2) comp noerr] assms(4)
  have "ZSTD_getFrameContentSize e frame = of_nat (length P)
      \<and> ZSTD_getFrameContentSize e frame \<noteq> ZSTD_CONTENTSIZE_ERROR e"
    by blast
  with assms(4) show ?thesis
    by (auto simp: frameContentSize_def Let_def)
qed

text \<open>
  C4. With two different sentinels, \<open>frameContentSize\<close> throws \<^verbatim>\<open>ZUnknownSize\<close> exactly when
  the engine answers "unknown", throws a plain \<^verbatim>\<open>ZError\<close> exactly when the engine answers
  "error", and returns a size exactly when the engine answers neither; the size returned
  is the engine's answer. Whatever it throws is caught by a handler for \<^verbatim>\<open>ZError\<close>, and by a
  handler for \<^verbatim>\<open>ZUnknownSize\<close> only when the engine answered "unknown".
\<close>

theorem frameContentSize_outcomes:
  assumes "ZSTD_CONTENTSIZE_UNKNOWN e \<noteq> ZSTD_CONTENTSIZE_ERROR e"
  shows "((\<exists>m. frameContentSize e src = Inl (ZUnknownSize m))
            \<longleftrightarrow> ZSTD_getFrameContentSize e src = ZSTD_CONTENTSIZE_UNKNOWN e)
       \<and> ((\<exists>m. frameContentSize e src = Inl (ZError m))
            \<longleftrightarrow> ZSTD_getFrameContentSize e src = ZSTD_CONTENTSIZE_ERROR e)
       \<and> ((\<exists>n. frameContentSize e src = Inr n)
            \<longleftrightarrow> ZSTD_getFrameContentSize e src \<noteq> ZSTD_CONTENTSIZE_UNKNOWN e
                \<and> ZSTD_getFrameContentSize e src \<noteq> ZSTD_CONTENTSIZE_ERROR e)
       \<and> (\<forall>n. frameContentSize e src = Inr n \<longrightarrow> n = ZSTD_getFrameContentSize e src)
       \<and> (\<forall>err. frameContentSize e src = Inl err \<longrightarrow>
            caught_as_ZError err
            \<and> (caught_as_ZUnknownSize err
                 \<longleftrightarrow> ZSTD_getFrameContentSize e src = ZSTD_CONTENTSIZE_UNKNOWN e))"
  using assms by (auto simp: frameContentSize_def Let_def)

section \<open>Training\<close>



section \<open>The two overloads of compress\<close>




section \<open>The lifetime of a dictionary\<close>

lemma CDict_ctor_trace:
  assumes "CDict_ctor e w data lvl = (Inr a, w1)"
  shows "trace w1 = trace w @
      [createCDict_call (TrainData_data data) (TrainData_size data) lvl (CDict_mDict a)]"
    and "CDict_mDict a \<noteq> nullptr"
  using assms by (auto simp: CDict_ctor_def Let_def split: if_splits)

lemma CDict_scope_trace:
  assumes "CDict_ctor e w data lvl = (Inr a, w1)"
  shows "trace (CDict_scope e w data lvl) = trace w1 @ [freeCDict_call (CDict_mDict a)]"
  using assms by (simp add: CDict_scope_def CDict_dtor_def)

lemma CDict_scope_move_ctor_trace:
  assumes "CDict_ctor e w data lvl = (Inr a, w1)"
  shows "trace (CDict_scope_move_ctor e w data lvl) =
      trace w1 @ [freeCDict_call (CDict_mDict a), freeCDict_call (CDict_mDict a)]"
  using assms by (simp add: CDict_scope_move_ctor_def CDict_move_ctor_def CDict_dtor_def)

lemma CDict_scope_move_assign_trace:
  assumes "CDict_ctor e w data1 lvl1 = (Inr a, w1)" and "CDict_ctor e w1 data2 lvl2 = (Inr b, w2)"
  shows "trace (CDict_scope_move_assign e w data1 lvl1 data2 lvl2) =
      trace w2 @ [freeCDict_call (CDict_mDict b), freeCDict_call (CDict_mDict b)]"
  using assms by (simp add: CDict_scope_move_assign_def CDict_move_assign_def CDict_dtor_def)

lemma DDict_scope_move_ctor_trace:
  assumes "DDict_ctor e w data = (Inr a, w1)"
  shows "trace (DDict_scope_move_ctor e w data) =
      trace w1 @ [freeDDict_call (DDict_mDict a), freeDDict_call (DDict_mDict a)]"
  using assms by (simp add: DDict_scope_move_ctor_def DDict_move_ctor_def DDict_dtor_def)

section \<open>The theorems at concrete inputs\<close>

lemma stored_compress_vec_3:
  "compress_vec stored_engine fresh_world [9, 9] [1, 2, 3] 3 =
     (Inr (),
      \<lparr>Compress_mContext = Some (), Decompress_mContext = None,
         trace = [createCCtx_call, compressCCtx_call 4 [1, 2, 3] 3]\<rparr>,
      [3, 1, 2, 3])"
  by (simp add: compress_vec_def compressbound_def Compress_instance_def stored_engine_def
      fresh_world_def resize_def poke_def stored_compressCCtx_def stored_isError_def)

theorem compress_vec_steps_witness:
  "compress_vec stored_engine fresh_world [9, 9] [1, 2, 3] 3 =
     (Inr (),
      \<lparr>Compress_mContext = Some (), Decompress_mContext = None,
         trace = [createCCtx_call, compressCCtx_call 4 [1, 2, 3] 3]\<rparr>,
      [3, 1, 2, 3])
   \<and> compressbound stored_engine (of_nat (length [1, 2, 3 :: byte])) = 4
   \<and> length [3, 1, 2, 3 :: byte] = unat (4 :: size_t)"
proof -
  have inst: "Compress_instance stored_engine fresh_world =
      (Inr (), \<lparr>Compress_mContext = Some (), Decompress_mContext = None, trace = [createCCtx_call]\<rparr>)"
    by (simp add: Compress_instance_def stored_engine_def fresh_world_def)
  have call: "ZSTD_compressCCtx stored_engine ()
      (compressbound stored_engine (of_nat (length [1, 2, 3 :: byte]))) [1, 2, 3] 3 = (4, [3, 1, 2, 3], ())"
    by (simp add: compressbound_def stored_engine_def stored_compressCCtx_def)
  have ok: "\<not> ZSTD_isError stored_engine 4"
    by (simp add: stored_engine_def stored_isError_def)
  from compress_vec_steps [OF inst call ok, of "[9, 9]"] show ?thesis
    by (simp add: compressbound_def stored_engine_def resize_def poke_def)
qed

theorem compress_vec_failure_keeps_bound_witness:
  "fst (compress_vec stored_engine fresh_world [9, 9] (replicate 255 7) 3) =
     Inl (ZError ''compress error: Src size is incorrect'')
   \<and> length (snd (snd (compress_vec stored_engine fresh_world [9, 9] (replicate 255 7) 3))) = 256"
proof -
  have thrown: "fst (compress_vec stored_engine fresh_world [9, 9] (replicate 255 7) 3) =
      Inl (ZError ''compress error: Src size is incorrect'')"
    by (simp add: compress_vec_def compressbound_def Compress_instance_def stored_engine_def
        fresh_world_def stored_compressCCtx_def stored_isError_def stored_getErrorName_def Let_def)
  then obtain w' dst' where run:
    "compress_vec stored_engine fresh_world [9, 9] (replicate 255 7) 3 =
       (Inl (ZError ''compress error: Src size is incorrect''), w', dst')"
    by (cases "compress_vec stored_engine fresh_world [9, 9] (replicate 255 7) 3") auto
  from compress_vec_failure_keeps_bound [OF run] have "length dst' = 256"
    by (simp add: compressbound_def stored_engine_def)
  with run show ?thesis
    by simp
qed

theorem compress_vec_within_bound_witness:
  "compress_contract stored_engine
   \<and> compress_vec stored_engine fresh_world [9, 9] [1, 2, 3] 3 =
     (Inr (),
      \<lparr>Compress_mContext = Some (), Decompress_mContext = None,
         trace = [createCCtx_call, compressCCtx_call 4 [1, 2, 3] 3]\<rparr>,
      [3, 1, 2, 3])
   \<and> length [3, 1, 2, 3 :: byte] \<le> unat (compressbound stored_engine (of_nat (length [1, 2, 3 :: byte])))"
  using compress_vec_within_bound [OF stored_compress_contract stored_compress_vec_3]
    stored_compress_contract stored_compress_vec_3
  by simp

lemma stored_decompress_3:
  "decompress stored_engine fresh_world [0, 0, 0, 0, 0] [3, 1, 2, 3] =
     (Inr 3,
      \<lparr>Compress_mContext = None, Decompress_mContext = Some (),
         trace = [createDCtx_call, decompressDCtx_call 5 [3, 1, 2, 3]]\<rparr>,
      [1, 2, 3, 0, 0])"
  by (simp add: decompress_def Decompress_instance_def stored_engine_def fresh_world_def
      poke_def stored_decompressDCtx_def stored_isError_def)

theorem compress_decompress_roundtrip_witness:
  "compress_contract stored_engine \<and> roundtrip_contract stored_engine
   \<and> fst (compress_vec stored_engine fresh_world [9, 9] [1, 2, 3] 3) = Inr ()
   \<and> snd (snd (compress_vec stored_engine fresh_world [9, 9] [1, 2, 3] 3)) = [3, 1, 2, 3]
   \<and> decompress stored_engine fresh_world [0, 0, 0, 0, 0] [3, 1, 2, 3] =
       (Inr 3,
        \<lparr>Compress_mContext = None, Decompress_mContext = Some (),
           trace = [createDCtx_call, decompressDCtx_call 5 [3, 1, 2, 3]]\<rparr>,
        [1, 2, 3, 0, 0])
   \<and> take (unat (3 :: size_t)) [1, 2, 3, 0, 0 :: byte] = [1, 2, 3]"
proof -
  have inst: "Decompress_instance stored_engine fresh_world =
      (Inr (), \<lparr>Compress_mContext = None, Decompress_mContext = Some (), trace = [createDCtx_call]\<rparr>)"
    by (simp add: Decompress_instance_def stored_engine_def fresh_world_def)
  have "\<exists>n w4 dst'. decompress stored_engine fresh_world [0, 0, 0, 0, 0] [3, 1, 2, 3] = (Inr n, w4, dst')
           \<and> unat n = length [1, 2, 3 :: byte] \<and> take (unat n) dst' = [1, 2, 3]"
    by (rule compress_decompress_roundtrip [OF stored_compress_contract stored_roundtrip_contract
          stored_compress_vec_3 inst]) simp_all
  with stored_compress_contract stored_roundtrip_contract stored_compress_vec_3 stored_decompress_3
  show ?thesis
    by simp
qed

theorem frameContentSize_of_compressed_witness:
  "compress_contract stored_engine \<and> frame_size_contract stored_engine
   \<and> fst (compress_vec stored_engine fresh_world [9, 9] [1, 2, 3] 3) = Inr ()
   \<and> snd (snd (compress_vec stored_engine fresh_world [9, 9] [1, 2, 3] 3)) = [3, 1, 2, 3]
   \<and> ZSTD_getFrameContentSize stored_engine [3, 1, 2, 3] \<noteq> ZSTD_CONTENTSIZE_UNKNOWN stored_engine
   \<and> frameContentSize stored_engine [3, 1, 2, 3] = Inr (of_nat (length [1, 2, 3 :: byte]))"
proof -
  have declared: "ZSTD_getFrameContentSize stored_engine [3, 1, 2, 3]
      \<noteq> ZSTD_CONTENTSIZE_UNKNOWN stored_engine"
    by (simp add: stored_engine_def stored_getFrameContentSize_def)
  from frameContentSize_of_compressed [OF stored_compress_contract stored_frame_size_contract
      stored_compress_vec_3 declared]
    stored_compress_contract stored_frame_size_contract stored_compress_vec_3 declared
  show ?thesis
    by simp
qed

theorem frameContentSize_outcomes_witness:
  "ZSTD_CONTENTSIZE_UNKNOWN stored_engine \<noteq> ZSTD_CONTENTSIZE_ERROR stored_engine
   \<and> frameContentSize stored_engine [255, 1, 2, 3] = Inl (ZUnknownSize ''unknown size'')
   \<and> ZSTD_getFrameContentSize stored_engine [255, 1, 2, 3] = ZSTD_CONTENTSIZE_UNKNOWN stored_engine
   \<and> frameContentSize stored_engine [] = Inl (ZError ''cannot determine size'')
   \<and> ZSTD_getFrameContentSize stored_engine [] = ZSTD_CONTENTSIZE_ERROR stored_engine
   \<and> frameContentSize stored_engine [3, 1, 2, 3] = Inr 3
   \<and> ZSTD_getFrameContentSize stored_engine [3, 1, 2, 3] = 3"
proof -
  have differ: "ZSTD_CONTENTSIZE_UNKNOWN stored_engine \<noteq> ZSTD_CONTENTSIZE_ERROR stored_engine"
    by (simp add: stored_engine_def)
  have unknown: "ZSTD_getFrameContentSize stored_engine [255, 1, 2, 3]
      = ZSTD_CONTENTSIZE_UNKNOWN stored_engine"
    by (simp add: stored_engine_def stored_getFrameContentSize_def)
  have invalid: "ZSTD_getFrameContentSize stored_engine [] = ZSTD_CONTENTSIZE_ERROR stored_engine"
    by (simp add: stored_engine_def stored_getFrameContentSize_def)
  have declared: "ZSTD_getFrameContentSize stored_engine [3, 1, 2, 3] = 3"
    by (simp add: stored_engine_def stored_getFrameContentSize_def)
  have sentinels: "ZSTD_CONTENTSIZE_UNKNOWN stored_engine = - 1"
    "ZSTD_CONTENTSIZE_ERROR stored_engine = - 2"
    by (simp_all add: stored_engine_def)
  from frameContentSize_outcomes [OF differ, of "[255, 1, 2, 3]"] unknown
  have "\<exists>m. frameContentSize stored_engine [255, 1, 2, 3] = Inl (ZUnknownSize m)"
    by blast
  then have a: "frameContentSize stored_engine [255, 1, 2, 3] = Inl (ZUnknownSize ''unknown size'')"
    by (auto simp: frameContentSize_def Let_def split: if_splits)
  from frameContentSize_outcomes [OF differ, of "[]"] invalid
  have "\<exists>m. frameContentSize stored_engine [] = Inl (ZError m)"
    by blast
  then have b: "frameContentSize stored_engine [] = Inl (ZError ''cannot determine size'')"
    by (auto simp: frameContentSize_def Let_def split: if_splits)
  from frameContentSize_outcomes [OF differ, of "[3, 1, 2, 3]"] declared sentinels
  have c: "frameContentSize stored_engine [3, 1, 2, 3] = Inr 3"
    by auto
  from differ unknown invalid declared a b c show ?thesis
    by simp
qed







text \<open>
  C5. A dictionary that is constructed and destroyed is released once. After a move
  construction both objects hold the pointer, and the scope releases it twice; after a move
  assignment the pointer of the object assigned to is never released and the other one
  twice. The same holds for \<^verbatim>\<open>DDict\<close>.
\<close>

theorem CDict_moved_from_released_twice:
  "trace (CDict_scope stored_engine fresh_world (TrainData_ctor 3) 3) =
     [createCDict_call [0, 0, 0] 3 3 4, freeCDict_call 4]
   \<and> trace (CDict_scope_move_ctor stored_engine fresh_world (TrainData_ctor 3) 3) =
     [createCDict_call [0, 0, 0] 3 3 4, freeCDict_call 4, freeCDict_call 4]
   \<and> trace (CDict_scope_move_assign stored_engine fresh_world (TrainData_ctor 3) 3 (TrainData_ctor 5) 3) =
     [createCDict_call [0, 0, 0] 3 3 4, createCDict_call [0, 0, 0, 0, 0] 5 3 6,
      freeCDict_call 6, freeCDict_call 6]
   \<and> trace (DDict_scope_move_ctor stored_engine fresh_world (TrainData_ctor 3)) =
     [createDDict_call [0, 0, 0] 3 4, freeDDict_call 4, freeDDict_call 4]"
  by (simp add: CDict_scope_def CDict_scope_move_ctor_def CDict_scope_move_assign_def
      DDict_scope_move_ctor_def CDict_ctor_def DDict_ctor_def CDict_move_ctor_def
      CDict_move_assign_def DDict_move_ctor_def CDict_dtor_def DDict_dtor_def
      TrainData_ctor_def TrainData_data_def TrainData_size_def nullptr_def
      stored_engine_def fresh_world_def replicate_3 replicate_5)

end
